theory Spec2Isabelle
  imports Complex_Main
begin

section \<open>run-fan: a shallow embedding of \<^verbatim>\<open>run-fan.py\<close>\<close>

text \<open>
  The script polls the CPU temperature every 30 seconds and switches a fan through one
  GPIO pin, with two thresholds. Everything the script does to the outside world (log
  lines, GPIO calls, files opened and closed, shell commands, sleeping) is recorded, in
  order, as a list of effects. Everything the outside world decides (what the sensor
  file holds, whether a GPIO call raises, the calendar date, how a sleep ends) is an
  explicit input. Operations on the log file and the shell command are taken to
  return normally.
\<close>

subsection \<open>Python floats and their comparisons\<close>

text \<open>
  A Python float is a finite number, an infinity or a NaN. Finite values are modelled
  as reals (rounding is not modelled; the script only compares, apart from the exact
  \<^verbatim>\<open>67.0 - 5.0\<close>). Every comparison with a NaN is false.
\<close>

datatype pyfloat = Fin real | PInf | NInf | NaN

fun py_lt :: "pyfloat \<Rightarrow> pyfloat \<Rightarrow> bool" where
  "py_lt (Fin x) (Fin y) = (x < y)"
| "py_lt (Fin x) PInf = True"
| "py_lt (Fin x) NInf = False"
| "py_lt (Fin x) NaN = False"
| "py_lt PInf b = False"
| "py_lt NInf (Fin y) = True"
| "py_lt NInf PInf = True"
| "py_lt NInf NInf = False"
| "py_lt NInf NaN = False"
| "py_lt NaN b = False"

definition py_gt :: "pyfloat \<Rightarrow> pyfloat \<Rightarrow> bool" where
  "py_gt a b = py_lt b a"

definition py_le :: "pyfloat \<Rightarrow> pyfloat \<Rightarrow> bool" where
  "py_le a b = (a \<noteq> NaN \<and> b \<noteq> NaN \<and> (py_lt a b \<or> a = b))"

fun py_sub :: "pyfloat \<Rightarrow> pyfloat \<Rightarrow> pyfloat" where
  "py_sub (Fin x) (Fin y) = Fin (x - y)"
| "py_sub (Fin x) PInf = NInf"
| "py_sub (Fin x) NInf = PInf"
| "py_sub PInf (Fin y) = PInf"
| "py_sub PInf NInf = PInf"
| "py_sub PInf PInf = NaN"
| "py_sub NInf (Fin y) = NInf"
| "py_sub NInf PInf = NInf"
| "py_sub NInf NInf = NaN"
| "py_sub NaN b = NaN"
| "py_sub a NaN = NaN"

subsection \<open>Effects, exceptions and the program state\<close>

text \<open>
  \<open>LogWrite s\<close> is \<^verbatim>\<open>fileLog.write(timeStamp() + s + "\n")\<close> (the time stamp is left
  out); \<open>LogWriteTemp s t\<close> is the same for \<^verbatim>\<open>s + str(t)\<close> with a float \<open>t\<close>, whose
  decimal rendering is not modelled. \<open>GpioSetup p\<close> stands for the three calls
  \<^verbatim>\<open>setmode\<close>, \<^verbatim>\<open>setwarnings\<close>, \<^verbatim>\<open>setup(p, OUT)\<close>; \<open>GpioOutput p b\<close> is a
  \<^verbatim>\<open>GPIO.output(p, b)\<close> that returned; \<open>GpioCleanup\<close> is \<^verbatim>\<open>GPIO.cleanup()\<close>.
\<close>

datatype effect =
    LogOpen string
  | LogClose
  | LogWrite string
  | LogWriteTemp string pyfloat
  | GpioSetup nat
  | GpioOutput nat bool
  | GpioCleanup
  | OsSystem string
  | Sleep nat

datatype exn = ValueError | RuntimeError | KeyboardInterrupt

text \<open>
  The objects of the script are singletons, so their fields are kept in one record:
  \<open>fanOff\<close> of \<^verbatim>\<open>myFan\<close>; \<open>cpuTemperature\<close>, \<open>startTemperature\<close>, \<open>stopTemperature\<close> of
  \<^verbatim>\<open>myTemp\<close>; the module global \<open>logName\<close>; and the effects so far, oldest first.
\<close>

record machine =
  fanOff :: bool
  cpuTemperature :: pyfloat
  startTemperature :: pyfloat
  stopTemperature :: pyfloat
  logName :: string
  effects :: "effect list"

definition sleepTime :: nat where
  "sleepTime = 30"

definition pin :: nat where
  "pin = 25"

definition emit :: "effect \<Rightarrow> machine \<Rightarrow> machine" where
  "emit e m = m\<lparr>effects := effects m @ [e]\<rparr>"

text \<open>Module level, lines 88-89, with the class attributes as the fields' defaults.\<close>

definition module_init :: machine where
  "module_init =
     \<lparr>fanOff = True, cpuTemperature = Fin 0, startTemperature = Fin 0,
      stopTemperature = Fin 0,
      logName = ''/home/pi/run-fan/logs/run-fan-default.log'',
      effects = [LogOpen ''/home/pi/run-fan/logs/run-fan-default.log'']\<rparr>"

definition printMsg :: "string \<Rightarrow> machine \<Rightarrow> machine" where
  "printMsg s m = emit (LogWrite s) m"

definition printMsgTemp :: "string \<Rightarrow> pyfloat \<Rightarrow> machine \<Rightarrow> machine" where
  "printMsgTemp s t m = emit (LogWriteTemp s t) m"

subsection \<open>dateStamp\<close>

text \<open>
  \<^verbatim>\<open>strftime('%Y.%m.%d')\<close> of the local date: the year in four digits (for the years
  1000 to 9999), the month and the day in two digits each, zero padded.
\<close>

record date =
  year :: nat
  month :: nat
  day :: nat

definition valid_date :: "date \<Rightarrow> bool" where
  "valid_date d =
     (1000 \<le> year d \<and> year d \<le> 9999 \<and> 1 \<le> month d \<and> month d \<le> 12 \<and>
      1 \<le> day d \<and> day d \<le> 31)"

definition digit :: "nat \<Rightarrow> char" where
  "digit n = ''0123456789'' ! n"

definition pad2 :: "nat \<Rightarrow> string" where
  "pad2 n = [digit (n div 10 mod 10), digit (n mod 10)]"

definition pad4 :: "nat \<Rightarrow> string" where
  "pad4 n = [digit (n div 1000 mod 10), digit (n div 100 mod 10),
             digit (n div 10 mod 10), digit (n mod 10)]"

definition dateStamp :: "date \<Rightarrow> string" where
  "dateStamp d = pad4 (year d) @ ''.'' @ pad2 (month d) @ ''.'' @ pad2 (day d)"

subsection \<open>Pin\<close>

text \<open>
  What the GPIO library does at start-up is an input: either \<^verbatim>\<open>setup\<close> raises, or
  all calls return and \<^verbatim>\<open>str(GPIO.gpio_function(pin))\<close> is the given text. In the
  \<^verbatim>\<open>except\<close> branch the statement \<^verbatim>\<open>exit\<close> is a bare name, not a call: evaluating it
  does nothing, and the constructor returns normally.
\<close>

datatype gpio_init = SetupRaises | SetupOk string

fun Pin_init :: "gpio_init \<Rightarrow> machine \<Rightarrow> machine" where
  "Pin_init (SetupOk func) m =
     printMsg (''GPIO pin: 25 set to '' @ func)
       (printMsg ''Initialized: run-fan using GPIO pin: 25'' (emit (GpioSetup pin) m))"
| "Pin_init SetupRaises m =
     printMsg ''If method setup doesn't work, need to run script as sudo'' m"

definition exitPin :: "machine \<Rightarrow> machine" where
  "exitPin m = emit GpioCleanup m"

text \<open>\<^verbatim>\<open>Pin.set\<close>: \<^verbatim>\<open>GPIO.output\<close> either returns (\<open>ok\<close>) or raises.\<close>

definition set_pin :: "bool \<Rightarrow> bool \<Rightarrow> machine \<Rightarrow> exn option \<times> machine" where
  "set_pin ok state m =
     (if ok then (None, emit (GpioOutput pin state) m) else (Some RuntimeError, m))"

subsection \<open>Fan\<close>

definition Fan_init :: "machine \<Rightarrow> machine" where
  "Fan_init m = m\<lparr>fanOff := True\<rparr>"

definition setFan :: "pyfloat \<Rightarrow> bool \<Rightarrow> bool \<Rightarrow> machine \<Rightarrow> exn option \<times> machine" where
  "setFan temp on ok m =
     (let m1 = (if on then printMsgTemp ''Turning fan on '' temp m
                else printMsgTemp ''Turning fan off '' temp m)
      in case set_pin ok on m1 of
           (Some e, m2) \<Rightarrow> (Some e, m2)
         | (None, m2) \<Rightarrow> (None, m2\<lparr>fanOff := \<not> on\<rparr>))"

subsection \<open>Temperature\<close>

definition Temperature_init :: "machine \<Rightarrow> machine" where
  "Temperature_init m =
     (let m1 = m\<lparr>startTemperature := Fin 67\<rparr>;
          m2 = m1\<lparr>stopTemperature := py_sub (startTemperature m1) (Fin 5)\<rparr>;
          m3 = printMsgTemp ''Start fan at: '' (startTemperature m2) m2
      in printMsgTemp ''Stop fan at: '' (stopTemperature m3) m3)"

text \<open>
  The sensor input is the value of \<^verbatim>\<open>float(res)/1000\<close>, or \<open>None\<close> when \<^verbatim>\<open>float(res)\<close>
  raises ValueError (an empty or non-numeric line).
\<close>

definition getTemperature :: "pyfloat option \<Rightarrow> machine \<Rightarrow> exn option \<times> machine" where
  "getTemperature reading m =
     (case reading of
        None \<Rightarrow> (Some ValueError, m)
      | Some t \<Rightarrow> (None, m\<lparr>cpuTemperature := t\<rparr>))"

text \<open>
  \<open>reading\<close> is the sensor input of this call, and \<open>ok\<close> says whether \<^verbatim>\<open>GPIO.output\<close>
  returns, should this call reach it. The result is the exception raised, if any, and
  the state left behind.
\<close>

definition checkTemperature :: "pyfloat option \<Rightarrow> bool \<Rightarrow> machine \<Rightarrow> exn option \<times> machine" where
  "checkTemperature reading ok m =
     (case getTemperature reading m of
        (Some e, m1) \<Rightarrow> (Some e, m1)
      | (None, m1) \<Rightarrow>
          if py_gt (cpuTemperature m1) (startTemperature m1) then
            (if fanOff m1 then setFan (cpuTemperature m1) True ok m1 else (None, m1))
          else if py_le (cpuTemperature m1) (stopTemperature m1) then
            (if \<not> fanOff m1 then setFan (cpuTemperature m1) False ok m1 else (None, m1))
          else (None, m1))"

subsection \<open>The main loop\<close>

text \<open>
  One entry per iteration of \<^verbatim>\<open>while True\<close>: the sensor reading, whether
  \<^verbatim>\<open>GPIO.output\<close> returns if it is called, the local date, and how \<^verbatim>\<open>time.sleep\<close> ends:
  it returns, or Ctrl-C raises KeyboardInterrupt in it, or SIGTERM arrives. The script
  installs no signal handler, so SIGTERM has its default action: the process is killed
  and no further Python statement runs.
\<close>

datatype wakeup = Slept | CtrlC | SigTerm

record tick_env =
  sensor :: "pyfloat option"
  gpio_write_ok :: bool
  today :: date
  sleep_result :: wakeup

datatype flow = Continue | Raise exn | Terminated

text \<open>Lines 193-199.\<close>

definition rotate_log :: "date \<Rightarrow> machine \<Rightarrow> machine" where
  "rotate_log d m =
     (let tmp = ''/home/pi/run-fan/logs/run-fan-'' @ dateStamp d @ ''.log''
      in if tmp \<noteq> logName m then
           emit (OsSystem ''find /home/pi/run-fan/logs/ -mtime +14 -delete'')
             (emit (LogOpen tmp) ((emit LogClose m)\<lparr>logName := tmp\<rparr>))
         else m)"

text \<open>Lines 191-202.\<close>

definition loop_body :: "tick_env \<Rightarrow> machine \<Rightarrow> flow \<times> machine" where
  "loop_body e m =
     (case checkTemperature (sensor e) (gpio_write_ok e) m of
        (Some x, m1) \<Rightarrow> (Raise x, m1)
      | (None, m1) \<Rightarrow>
          (let m2 = emit (Sleep sleepTime) (rotate_log (today e) m1)
           in case sleep_result e of
                Slept \<Rightarrow> (Continue, m2)
              | CtrlC \<Rightarrow> (Raise KeyboardInterrupt, m2)
              | SigTerm \<Rightarrow> (Terminated, m2)))"

text \<open>Lines 204-212: the two \<^verbatim>\<open>except\<close> clauses.\<close>

definition handler :: "exn \<Rightarrow> machine \<Rightarrow> machine" where
  "handler x m =
     (if x = KeyboardInterrupt then
        emit LogClose (exitPin (printMsg ''keyboard exception occurred'' m))
      else
        emit LogClose (exitPin (printMsg ''ERROR: an unhandled exception occurred'' m)))"

text \<open>
  A run is observed over a finite list of iterations. \<open>Running\<close>: the loop is still
  going after them. \<open>Exited n\<close>: the process ended with exit status \<open>n\<close>; after a
  handler the script has no statement left, and the interpreter exits with status 0.
  \<open>Killed\<close>: the process was killed by SIGTERM.
\<close>

datatype outcome = Running machine | Exited int machine | Killed machine

fun main_loop :: "machine \<Rightarrow> tick_env list \<Rightarrow> outcome" where
  "main_loop m [] = Running m"
| "main_loop m (e # es) =
     (case loop_body e m of
        (Continue, m1) \<Rightarrow> main_loop m1 es
      | (Raise x, m1) \<Rightarrow> Exited 0 (handler x m1)
      | (Terminated, m1) \<Rightarrow> Killed m1)"

text \<open>Lines 185-189: the start of the script, up to the loop.\<close>

definition startup :: "gpio_init \<Rightarrow> machine" where
  "startup g = Temperature_init (Fan_init (Pin_init g (printMsg ''Starting: run-fan'' module_init)))"

definition run_fan :: "gpio_init \<Rightarrow> tick_env list \<Rightarrow> outcome" where
  "run_fan g es = main_loop (startup g) es"

subsection \<open>Observations on runs\<close>

fun final :: "outcome \<Rightarrow> machine" where
  "final (Running m) = m"
| "final (Exited n m) = m"
| "final (Killed m) = m"

fun output_of :: "effect \<Rightarrow> bool list" where
  "output_of (GpioOutput p b) = [b]"
| "output_of e = []"

text \<open>The driver commands among some effects, in order (\<open>True\<close> is ON).\<close>

definition commands :: "effect list \<Rightarrow> bool list" where
  "commands es = concat (map output_of es)"

text \<open>The state last commanded; OFF when no command was issued yet.\<close>

definition commanded_state :: "effect list \<Rightarrow> bool" where
  "commanded_state es = (if commands es = [] then False else last (commands es))"

text \<open>One tick fed the sample \<open>t\<close>, with \<^verbatim>\<open>GPIO.output\<close> returning; then several.\<close>

definition tick :: "pyfloat \<Rightarrow> machine \<Rightarrow> machine" where
  "tick t m = snd (checkTemperature (Some t) True m)"

fun ticks :: "machine \<Rightarrow> pyfloat list \<Rightarrow> machine" where
  "ticks m [] = m"
| "ticks m (t # ts) = ticks (tick t m) ts"

text \<open>The driver commands issued while the samples \<open>run\<close> are processed from \<open>m\<close>.\<close>

definition issued :: "machine \<Rightarrow> pyfloat list \<Rightarrow> bool list" where
  "issued m run = commands (drop (length (effects m)) (effects (ticks m run)))"

text \<open>The same for a contiguous run inside a longer sequence: after \<open>pre\<close> was processed.\<close>

definition commands_during :: "machine \<Rightarrow> pyfloat list \<Rightarrow> pyfloat list \<Rightarrow> bool list" where
  "commands_during m pre run = issued (ticks m pre) run"

text \<open>An iteration with a good reading, a working driver and an undisturbed sleep.\<close>

definition quiet :: "date \<Rightarrow> pyfloat \<Rightarrow> tick_env" where
  "quiet d t = \<lparr>sensor = Some t, gpio_write_ok = True, today = d, sleep_result = Slept\<rparr>"

text \<open>
  The part of the state the controller's decisions depend on, with the commands issued,
  and the relation between the recorded fan state and the last command.
\<close>

definition core :: "machine \<Rightarrow> bool \<times> pyfloat \<times> pyfloat \<times> bool list" where
  "core m = (fanOff m, startTemperature m, stopTemperature m, commands (effects m))"

definition in_step :: "machine \<Rightarrow> bool" where
  "in_step m = (fanOff m = (\<not> commanded_state (effects m)))"

section \<open>Properties\<close>

subsection \<open>Comparisons\<close>

lemma py_le_not_gt: "py_lt s S \<Longrightarrow> py_le t s \<Longrightarrow> \<not> py_gt t S"
  by (cases t; cases s; cases S) (auto simp: py_le_def py_gt_def)

lemma py_gt_irrefl: "\<not> py_gt a a"
  by (cases a) (simp_all add: py_gt_def)

lemma py_le_refl: "py_lt a b \<Longrightarrow> py_le a a"
  by (cases a) (simp_all add: py_le_def)

subsection \<open>The driver commands among effects\<close>

lemma commands_append: "commands (a @ b) = commands a @ commands b"
  by (simp add: commands_def)

lemma commands_simps:
  "commands [] = []"
  "commands (GpioOutput p b # es) = b # commands es"
  "commands (LogWriteTemp s t # es) = commands es"
  "commands (LogWrite s # es) = commands es"
  "commands (LogOpen s # es) = commands es"
  "commands (LogClose # es) = commands es"
  "commands (GpioSetup p # es) = commands es"
  "commands (GpioCleanup # es) = commands es"
  "commands (OsSystem s # es) = commands es"
  "commands (Sleep n # es) = commands es"
  by (simp_all add: commands_def)

subsection \<open>One tick\<close>

text \<open>What \<open>checkTemperature\<close> returns when the sensor is read and the driver works.\<close>

lemma checkTemperature_ok:
  "checkTemperature (Some t) True m =
     (if py_gt t (startTemperature m) then
        (if fanOff m then
          (None, m\<lparr>cpuTemperature := t, fanOff := False,
                    effects := effects m @ [LogWriteTemp ''Turning fan on '' t, GpioOutput pin True]\<rparr>)
         else (None, m\<lparr>cpuTemperature := t\<rparr>))
      else if py_le t (stopTemperature m) then
        (if \<not> fanOff m then
          (None, m\<lparr>cpuTemperature := t, fanOff := True,
                    effects := effects m @ [LogWriteTemp ''Turning fan off '' t, GpioOutput pin False]\<rparr>)
         else (None, m\<lparr>cpuTemperature := t\<rparr>))
      else (None, m\<lparr>cpuTemperature := t\<rparr>))"
  by (simp add: checkTemperature_def getTemperature_def setFan_def set_pin_def
      printMsgTemp_def emit_def)

text \<open>
  C1: on a tick with sample \<open>t\<close> (the sensor is read, and the driver call returns if
  it is made) and thresholds \<open>stopTemperature < startTemperature\<close>:
  if \<open>t > startTemperature\<close> and the fan is recorded OFF, the driver is commanded ON
  and the fan is recorded ON; else if \<open>t \<le> stopTemperature\<close> and the fan is recorded
  ON, the driver is commanded OFF and the fan is recorded OFF; otherwise no driver
  command is issued and the recorded fan state is unchanged. A sample equal to
  \<open>startTemperature\<close> with the fan OFF changes nothing, and a sample equal to
  \<open>stopTemperature\<close> with the fan ON turns the fan OFF.
\<close>

theorem checkTemperature_hysteresis:
  assumes "py_lt (stopTemperature m) (startTemperature m)"
  shows "checkTemperature (Some t) True m =
     (if py_gt t (startTemperature m) \<and> fanOff m then
        (None, m\<lparr>cpuTemperature := t, fanOff := False,
                  effects := effects m @ [LogWriteTemp ''Turning fan on '' t, GpioOutput pin True]\<rparr>)
      else if py_le t (stopTemperature m) \<and> \<not> fanOff m then
        (None, m\<lparr>cpuTemperature := t, fanOff := True,
                  effects := effects m @ [LogWriteTemp ''Turning fan off '' t, GpioOutput pin False]\<rparr>)
      else (None, m\<lparr>cpuTemperature := t\<rparr>))
    \<and> (fanOff m \<longrightarrow>
         checkTemperature (Some (startTemperature m)) True m =
           (None, m\<lparr>cpuTemperature := startTemperature m\<rparr>))
    \<and> (\<not> fanOff m \<longrightarrow>
         checkTemperature (Some (stopTemperature m)) True m =
           (None, m\<lparr>cpuTemperature := stopTemperature m, fanOff := True,
                     effects := effects m @
                       [LogWriteTemp ''Turning fan off '' (stopTemperature m), GpioOutput pin False]\<rparr>))"
proof -
  have a: "\<And>t. py_le t (stopTemperature m) \<Longrightarrow> \<not> py_gt t (startTemperature m)"
    using assms by (rule py_le_not_gt)
  have b: "\<not> py_gt (startTemperature m) (startTemperature m)"
    by (rule py_gt_irrefl)
  have c: "py_le (stopTemperature m) (stopTemperature m)"
    using assms by (rule py_le_refl)
  show ?thesis
    using a b c by (auto simp: checkTemperature_ok)
qed

subsection \<open>Sequences of ticks\<close>

lemma tick_thresholds:
  "startTemperature (tick t m) = startTemperature m"
  "stopTemperature (tick t m) = stopTemperature m"
  by (simp_all add: tick_def checkTemperature_ok)

lemma ticks_thresholds:
  "startTemperature (ticks m ts) = startTemperature m \<and>
   stopTemperature (ticks m ts) = stopTemperature m"
  by (induction ts arbitrary: m) (simp_all add: tick_thresholds)

lemma ticks_append: "ticks m (a @ b) = ticks (ticks m a) b"
  by (induction a arbitrary: m) simp_all

lemma tick_effects:
  "effects (tick t m) = effects m @ drop (length (effects m)) (effects (tick t m))"
  by (simp add: tick_def checkTemperature_ok)

lemma ticks_effects:
  "effects (ticks m ts) = effects m @ drop (length (effects m)) (effects (ticks m ts))"
proof (induction ts arbitrary: m)
  case Nil
  show ?case by simp
next
  case (Cons t ts)
  obtain a where a: "effects (tick t m) = effects m @ a"
    using tick_effects by blast
  obtain b where b: "effects (ticks (tick t m) ts) = effects (tick t m) @ b"
    using Cons.IH by blast
  show ?case using a b by simp
qed

lemma issued_Nil: "issued m [] = []"
  by (simp add: issued_def commands_def)

lemma issued_Cons:
  "issued m (t # ts) =
     commands (drop (length (effects m)) (effects (tick t m))) @ issued (tick t m) ts"
proof -
  obtain a where a: "effects (tick t m) = effects m @ a"
    using tick_effects by blast
  obtain b where b: "effects (ticks (tick t m) ts) = effects (tick t m) @ b"
    using ticks_effects by blast
  show ?thesis using a b by (simp add: issued_def commands_append)
qed

lemma tick_hot:
  "py_gt t (startTemperature m) \<Longrightarrow>
   commands (drop (length (effects m)) (effects (tick t m))) = (if fanOff m then [True] else []) \<and>
   \<not> fanOff (tick t m)"
  by (simp add: tick_def checkTemperature_ok commands_simps)

lemma tick_cold:
  "\<not> py_gt t (startTemperature m) \<Longrightarrow> py_le t (stopTemperature m) \<Longrightarrow>
   commands (drop (length (effects m)) (effects (tick t m))) = (if fanOff m then [] else [False]) \<and>
   fanOff (tick t m)"
  by (simp add: tick_def checkTemperature_ok commands_simps)

lemma tick_band:
  "\<not> py_gt t (startTemperature m) \<Longrightarrow> \<not> py_le t (stopTemperature m) \<Longrightarrow>
   commands (drop (length (effects m)) (effects (tick t m))) = [] \<and>
   fanOff (tick t m) = fanOff m"
  by (simp add: tick_def checkTemperature_ok commands_simps)

lemma issued_hot:
  "\<forall>t\<in>set run. py_gt t (startTemperature m) \<Longrightarrow>
   issued m run = (if fanOff m \<and> run \<noteq> [] then [True] else [])"
proof (induction run arbitrary: m)
  case Nil
  show ?case by (simp add: issued_Nil)
next
  case (Cons t ts)
  have h: "py_gt t (startTemperature m)" using Cons.prems by simp
  have "\<forall>u\<in>set ts. py_gt u (startTemperature (tick t m))"
    using Cons.prems by (simp add: tick_thresholds)
  then have "issued (tick t m) ts = (if fanOff (tick t m) \<and> ts \<noteq> [] then [True] else [])"
    by (rule Cons.IH)
  then show ?case using tick_hot [OF h] by (simp add: issued_Cons)
qed

lemma issued_cold:
  "py_lt (stopTemperature m) (startTemperature m) \<Longrightarrow>
   \<forall>t\<in>set run. py_le t (stopTemperature m) \<Longrightarrow>
   issued m run = (if \<not> fanOff m \<and> run \<noteq> [] then [False] else [])"
proof (induction run arbitrary: m)
  case Nil
  show ?case by (simp add: issued_Nil)
next
  case (Cons t ts)
  have le: "py_le t (stopTemperature m)" using Cons.prems by simp
  have ng: "\<not> py_gt t (startTemperature m)"
    using Cons.prems(1) le by (rule py_le_not_gt)
  have "issued (tick t m) ts = (if \<not> fanOff (tick t m) \<and> ts \<noteq> [] then [False] else [])"
    using Cons.prems by (intro Cons.IH) (simp_all add: tick_thresholds)
  then show ?case using tick_cold [OF ng le] by (simp add: issued_Cons)
qed

lemma issued_band:
  "\<forall>t\<in>set run. \<not> py_gt t (startTemperature m) \<and> \<not> py_le t (stopTemperature m) \<Longrightarrow>
   issued m run = []"
proof (induction run arbitrary: m)
  case Nil
  show ?case by (simp add: issued_Nil)
next
  case (Cons t ts)
  have a: "\<not> py_gt t (startTemperature m)" and b: "\<not> py_le t (stopTemperature m)"
    using Cons.prems by simp_all
  have "issued (tick t m) ts = []"
    using Cons.prems by (intro Cons.IH) (simp_all add: tick_thresholds)
  then show ?case using tick_band [OF a b] by (simp add: issued_Cons)
qed

text \<open>
  C3: for every finite sequence of samples fed to successive ticks (from FanState OFF
  or ON alike) and every contiguous run inside it: if all samples of the run are above
  \<open>startTemperature\<close>, at most one driver command is issued during the run; if all are
  at or below \<open>stopTemperature\<close> (with \<open>stopTemperature < startTemperature\<close>), at most
  one; if all are in the dead-band, none.
\<close>

theorem no_chatter:
  "((\<forall>t\<in>set run. py_gt t (startTemperature m)) \<longrightarrow> length (commands_during m pre run) \<le> 1)
   \<and> (py_lt (stopTemperature m) (startTemperature m) \<and> (\<forall>t\<in>set run. py_le t (stopTemperature m))
        \<longrightarrow> length (commands_during m pre run) \<le> 1)
   \<and> ((\<forall>t\<in>set run. \<not> py_gt t (startTemperature m) \<and> \<not> py_le t (stopTemperature m))
        \<longrightarrow> commands_during m pre run = [])"
proof -
  let ?m1 = "ticks m pre"
  have th: "startTemperature ?m1 = startTemperature m" "stopTemperature ?m1 = stopTemperature m"
    using ticks_thresholds by simp_all
  show ?thesis
    using issued_hot [of run ?m1] issued_cold [of ?m1 run] issued_band [of run ?m1]
    by (simp add: commands_during_def th)
qed

subsection \<open>The state at start-up\<close>

lemma startup_fields:
  "fanOff (startup g)"
  "startTemperature (startup g) = Fin 67"
  "stopTemperature (startup g) = Fin 62"
  "logName (startup g) = ''/home/pi/run-fan/logs/run-fan-default.log''"
  by (cases g; simp add: startup_def Temperature_init_def Fan_init_def printMsg_def
      printMsgTemp_def emit_def module_init_def)+

lemma startup_commands: "commands (effects (startup g)) = []"
  by (cases g; simp add: startup_def Temperature_init_def Fan_init_def printMsg_def
      printMsgTemp_def emit_def module_init_def commands_simps commands_append)

lemma startup_no_cleanup: "GpioCleanup \<notin> set (effects (startup g))"
  by (cases g; simp add: startup_def Temperature_init_def Fan_init_def printMsg_def
      printMsgTemp_def emit_def module_init_def)

subsection \<open>The loop on undisturbed iterations\<close>

lemma check_tick: "checkTemperature (Some t) True m = (None, tick t m)"
  by (simp add: tick_def checkTemperature_ok)

lemma fanOff_tick:
  "fanOff (tick t m) =
     (if py_gt t (startTemperature m) then False
      else if py_le t (stopTemperature m) then True else fanOff m)"
  by (simp add: tick_def checkTemperature_ok)

lemma commands_tick:
  "commands (effects (tick t m)) =
     commands (effects m) @
       (if py_gt t (startTemperature m) then (if fanOff m then [True] else [])
        else if py_le t (stopTemperature m) then (if fanOff m then [] else [False])
        else [])"
  by (simp add: tick_def checkTemperature_ok commands_append commands_simps)

lemma logName_tick: "logName (tick t m) = logName m"
  by (simp add: tick_def checkTemperature_ok)

lemma core_tick: "core m1 = core m2 \<Longrightarrow> core (tick t m1) = core (tick t m2)"
  by (simp add: core_def fanOff_tick commands_tick tick_thresholds)

lemma core_rotate: "core (emit (Sleep n) (rotate_log d m)) = core m"
  by (simp add: core_def emit_def rotate_log_def Let_def commands_append commands_simps)

lemma loop_body_quiet:
  "loop_body (quiet d t) m = (Continue, emit (Sleep sleepTime) (rotate_log d (tick t m)))"
  by (simp add: loop_body_def quiet_def check_tick)

text \<open>The loop and the bare sequence of ticks issue the same commands.\<close>

lemma main_loop_quiet:
  "core m1 = core m2 \<Longrightarrow>
   \<exists>m'. main_loop m1 (map (quiet d) ts) = Running m' \<and> core m' = core (ticks m2 ts)"
proof (induction ts arbitrary: m1 m2)
  case Nil
  then show ?case by simp
next
  case (Cons t ts)
  let ?n1 = "emit (Sleep sleepTime) (rotate_log d (tick t m1))"
  have "core (tick t m1) = core (tick t m2)"
    using Cons.prems by (rule core_tick)
  then have "core ?n1 = core (tick t m2)"
    by (simp only: core_rotate)
  then obtain m' where "main_loop ?n1 (map (quiet d) ts) = Running m'"
      and "core m' = core (ticks (tick t m2) ts)"
    using Cons.IH by blast
  then show ?case by (simp add: loop_body_quiet)
qed

lemma run_fan_quiet_commands:
  "commands (effects (final (run_fan g (map (quiet d) ts)))) =
   commands (effects (ticks (startup g) ts))"
proof -
  obtain m' where "main_loop (startup g) (map (quiet d) ts) = Running m'"
      and "core m' = core (ticks (startup g) ts)"
    using main_loop_quiet [of "startup g" "startup g"] by blast
  then show ?thesis by (simp add: run_fan_def core_def)
qed

lemma ticks_scenario:
  "commands (effects (ticks (startup g) [Fin 50, Fin 68, Fin 65, Fin 61, Fin 63, Fin 90])) =
   [True, False, True]"
  by (simp add: commands_tick fanOff_tick tick_thresholds startup_fields startup_commands
      py_gt_def py_le_def)

text \<open>
  C4, as the script runs it: from start-up (thresholds 67.0 and 62.0, fan recorded OFF)
  the samples 50, 68, 65, 61, 63, 90 issue exactly three driver commands: ON at 68, OFF
  at 61 and ON again at 90 (the fan is OFF since 61); none at 50, 65 and 63. The list
  gives the commands issued so far after 0, 1, ..., 6 samples.
\<close>

theorem scenario_commands:
  "map (\<lambda>k. commands (effects (final (run_fan g
         (map (quiet d) (take k [Fin 50, Fin 68, Fin 65, Fin 61, Fin 63, Fin 90]))))))
     [0, 1, 2, 3, 4, 5, 6]
   = [[], [], [True], [True], [True, False], [True, False], [True, False, True]]"
  by (simp add: run_fan_quiet_commands commands_tick fanOff_tick tick_thresholds startup_fields
      startup_commands py_gt_def py_le_def)

text \<open>The scenario at a concrete start and date: three commands, not two.\<close>

theorem scenario_two_commands_counterexample:
  "commands (effects (final (run_fan (SetupOk ''0'')
      (map (quiet \<lparr>year = 2024, month = 5, day = 17\<rparr>)
         [Fin 50, Fin 68, Fin 65, Fin 61, Fin 63, Fin 90])))) = [True, False, True]"
  by (simp only: run_fan_quiet_commands ticks_scenario)

subsection \<open>The recorded fan state and the last command\<close>

lemma checkTemperature_None: "checkTemperature None ok m = (Some ValueError, m)"
  by (simp add: checkTemperature_def getTemperature_def)

text \<open>
  When \<^verbatim>\<open>GPIO.output\<close> raises, the line was logged already, the pin is not written
  and \<open>fanOff\<close> keeps its value.
\<close>

lemma checkTemperature_fail:
  "checkTemperature (Some t) False m =
     (if py_gt t (startTemperature m) then
        (if fanOff m then
          (Some RuntimeError, m\<lparr>cpuTemperature := t,
                    effects := effects m @ [LogWriteTemp ''Turning fan on '' t]\<rparr>)
         else (None, m\<lparr>cpuTemperature := t\<rparr>))
      else if py_le t (stopTemperature m) then
        (if \<not> fanOff m then
          (Some RuntimeError, m\<lparr>cpuTemperature := t,
                    effects := effects m @ [LogWriteTemp ''Turning fan off '' t]\<rparr>)
         else (None, m\<lparr>cpuTemperature := t\<rparr>))
      else (None, m\<lparr>cpuTemperature := t\<rparr>))"
  by (simp add: checkTemperature_def getTemperature_def setFan_def set_pin_def
      printMsgTemp_def emit_def)

lemma commanded_state_append:
  "commanded_state (a @ b) = (if commands b = [] then commanded_state a else last (commands b))"
  by (simp add: commanded_state_def commands_append)

lemma check_step:
  "\<exists>new. effects (snd (checkTemperature r ok m)) = effects m @ new \<and>
      (commands new = [] \<and> fanOff (snd (checkTemperature r ok m)) = fanOff m
       \<or> commands new = [fanOff m] \<and> fanOff (snd (checkTemperature r ok m)) = (\<not> fanOff m))"
proof (cases r)
  case None
  then show ?thesis by (simp add: checkTemperature_None commands_simps)
next
  case (Some t)
  show ?thesis
  proof (cases ok)
    case True
    then show ?thesis using Some
      by (simp add: checkTemperature_ok commands_simps)
  next
    case False
    then show ?thesis using Some
      by (simp add: checkTemperature_fail commands_simps)
  qed
qed

lemma check_in_step:
  assumes "in_step m"
  shows "in_step (snd (checkTemperature r ok m))"
proof -
  obtain new where e: "effects (snd (checkTemperature r ok m)) = effects m @ new"
    and c: "commands new = [] \<and> fanOff (snd (checkTemperature r ok m)) = fanOff m
       \<or> commands new = [fanOff m] \<and> fanOff (snd (checkTemperature r ok m)) = (\<not> fanOff m)"
    using check_step by blast
  show ?thesis using assms c by (auto simp: in_step_def e commanded_state_append)
qed

lemma in_step_emit: "commands [e] = [] \<Longrightarrow> in_step (emit e m) = in_step m"
  by (simp add: in_step_def emit_def commanded_state_append)

lemma in_step_rotate: "in_step (rotate_log d m) = in_step m"
  by (simp add: in_step_def rotate_log_def Let_def emit_def commanded_state_append commands_simps)

lemma in_step_handler: "in_step (handler x m) = in_step m"
  by (simp add: handler_def exitPin_def printMsg_def in_step_emit commands_simps)

lemma loop_body_in_step:
  assumes "in_step m"
  shows "in_step (snd (loop_body e m))"
proof -
  have "in_step (snd (checkTemperature (sensor e) (gpio_write_ok e) m))"
    using assms by (rule check_in_step)
  then show ?thesis
    by (cases "checkTemperature (sensor e) (gpio_write_ok e) m")
       (auto simp: loop_body_def Let_def in_step_emit in_step_rotate commands_simps
             split: option.splits wakeup.splits)
qed

lemma main_loop_in_step: "in_step m \<Longrightarrow> in_step (final (main_loop m es))"
proof (induction es arbitrary: m)
  case Nil
  then show ?case by simp
next
  case (Cons e es)
  have s: "in_step (snd (loop_body e m))"
    using Cons.prems by (rule loop_body_in_step)
  show ?case
  proof (cases "loop_body e m")
    case (Pair f m1)
    then show ?thesis using s Cons.IH [of m1]
      by (cases f) (simp_all add: in_step_handler)
  qed
qed

lemma startup_in_step: "in_step (startup g)"
  by (simp add: in_step_def commanded_state_def startup_commands startup_fields)

text \<open>
  C5: whatever the sensor and the driver do, one \<open>checkTemperature\<close> either issues no
  driver command and leaves the recorded fan state as it was, or issues exactly one
  command, to the state opposite to the recorded one (\<open>fanOff m\<close> is the command ON
  exactly when the fan is recorded OFF), and records it. And in every state a run
  reaches, after any number of iterations and however it ends, the recorded fan state
  is the last commanded one (OFF when no command was issued).
\<close>

theorem fan_state_records_last_command:
  "(\<exists>new. effects (snd (checkTemperature r ok m)) = effects m @ new \<and>
      (commands new = [] \<and> fanOff (snd (checkTemperature r ok m)) = fanOff m
       \<or> commands new = [fanOff m] \<and> fanOff (snd (checkTemperature r ok m)) = (\<not> fanOff m)))
   \<and> fanOff (final (run_fan g es)) = (\<not> commanded_state (effects (final (run_fan g es))))"
  using check_step [of r ok m] main_loop_in_step [OF startup_in_step, of g es]
  by (simp add: run_fan_def in_step_def)

subsection \<open>Date stamps and log paths\<close>

lemma digit_inj: "a < 10 \<Longrightarrow> b < 10 \<Longrightarrow> digit a = digit b \<Longrightarrow> a = b"
proof -
  assume a: "a < 10" and b: "b < 10" and e: "digit a = digit b"
  have A: "a \<in> {0, 1, 2, 3, 4, 5, 6, 7, 8, 9}" using a by auto
  have B: "b \<in> {0, 1, 2, 3, 4, 5, 6, 7, 8, 9}" using b by auto
  show ?thesis using A B e by (auto simp: digit_def)
qed

lemma dateStamp_length: "length (dateStamp d) = 10"
  by (simp add: dateStamp_def pad4_def pad2_def)

lemma default_not_dated:
  "''/home/pi/run-fan/logs/run-fan-default.log'' \<noteq>
   ''/home/pi/run-fan/logs/run-fan-'' @ dateStamp d @ ''.log''"
proof
  assume "''/home/pi/run-fan/logs/run-fan-default.log'' =
   ''/home/pi/run-fan/logs/run-fan-'' @ dateStamp d @ ''.log''"
  then have "''default'' = dateStamp d"
    by simp
  then have "length ''default'' = length (dateStamp d)"
    by (rule arg_cong)
  then show False by (simp add: dateStamp_length)
qed


lemma pad2_inj: "a < 100 \<Longrightarrow> b < 100 \<Longrightarrow> pad2 a = pad2 b \<Longrightarrow> a = b"
proof -
  assume a: "a < 100" and b: "b < 100" and e: "pad2 a = pad2 b"
  have "digit (a div 10 mod 10) = digit (b div 10 mod 10)" "digit (a mod 10) = digit (b mod 10)"
    using e by (simp_all add: pad2_def)
  then have "a div 10 mod 10 = b div 10 mod 10" and "a mod 10 = b mod 10"
    by (auto intro: digit_inj)
  moreover have "a div 10 mod 10 = a div 10" "b div 10 mod 10 = b div 10"
    using a b by simp_all
  ultimately have "a div 10 = b div 10" "a mod 10 = b mod 10" by simp_all
  then show ?thesis by (metis div_mult_mod_eq)
qed

lemma pad4_inj: "a < 10000 \<Longrightarrow> b < 10000 \<Longrightarrow> pad4 a = pad4 b \<Longrightarrow> a = b"
proof -
  assume a: "a < 10000" and b: "b < 10000" and e: "pad4 a = pad4 b"
  have "digit (a div 1000 mod 10) = digit (b div 1000 mod 10)"
    "digit (a div 100 mod 10) = digit (b div 100 mod 10)"
    "digit (a div 10 mod 10) = digit (b div 10 mod 10)"
    "digit (a mod 10) = digit (b mod 10)"
    using e by (simp_all add: pad4_def)
  then have d: "a div 1000 mod 10 = b div 1000 mod 10" "a div 100 mod 10 = b div 100 mod 10"
    "a div 10 mod 10 = b div 10 mod 10" "a mod 10 = b mod 10"
    by (auto intro: digit_inj)
  have s: "a div 1000 mod 10 = a div 1000" "b div 1000 mod 10 = b div 1000"
    using a b by simp_all
  have y: "\<And>n::nat. n div 100 div 10 = n div 1000" "\<And>n::nat. n div 10 div 10 = n div 100"
    by (simp_all add: div_mult2_eq [symmetric])
  have z: "\<And>n::nat. n = 10 * (n div 10) + n mod 10"
    by simp
  have x: "\<And>n::nat. n div 100 = 10 * (n div 1000) + n div 100 mod 10"
    "\<And>n::nat. n div 10 = 10 * (n div 100) + n div 10 mod 10"
    "\<And>n::nat. n = 10 * (n div 10) + n mod 10"
    using z [of "n div 100" for n] z [of "n div 10" for n] z by (simp_all only: y)
  have "a div 100 = b div 100" using d s x(1) [of a] x(1) [of b] by simp
  then have "a div 10 = b div 10" using d x(2) [of a] x(2) [of b] by simp
  then show ?thesis using d x(3) [of a] x(3) [of b] by simp
qed

lemma dateStamp_inj:
  assumes "valid_date d" "valid_date d0" "dateStamp d = dateStamp d0"
  shows "d = d0"
proof -
  have "pad4 (year d) = pad4 (year d0)" "pad2 (month d) = pad2 (month d0)"
    "pad2 (day d) = pad2 (day d0)"
    using assms(3) by (simp_all add: dateStamp_def pad4_def pad2_def)
  moreover have "year d < 10000" "year d0 < 10000" "month d < 100" "month d0 < 100"
    "day d < 100" "day d0 < 100"
    using assms(1,2) by (simp_all add: valid_date_def)
  ultimately have "year d = year d0" "month d = month d0" "day d = day d0"
    by (auto intro: pad4_inj pad2_inj)
  then show ?thesis by simp
qed

subsection \<open>Iterations of the loop in general\<close>

lemma check_cases:
  "checkTemperature r ok m = checkTemperature None ok m \<and> r = None
   \<or> (\<exists>t. r = Some t \<and> ok \<and> checkTemperature r ok m = checkTemperature (Some t) True m)
   \<or> (\<exists>t. r = Some t \<and> \<not> ok \<and> checkTemperature r ok m = checkTemperature (Some t) False m)"
  by (cases r; cases ok) simp_all

lemma check_logName: "logName (snd (checkTemperature r ok m)) = logName m"
  using check_cases [of r ok m]
  by (auto simp: checkTemperature_None checkTemperature_ok checkTemperature_fail)

lemma check_cleanup:
  "(GpioCleanup \<in> set (effects (snd (checkTemperature r ok m)))) = (GpioCleanup \<in> set (effects m))"
  using check_cases [of r ok m]
  by (auto simp: checkTemperature_None checkTemperature_ok checkTemperature_fail
      split: if_splits)

lemma rotate_cleanup:
  "(GpioCleanup \<in> set (effects (rotate_log d m))) = (GpioCleanup \<in> set (effects m))"
  by (simp add: rotate_log_def Let_def emit_def)

lemma loop_body_after_check:
  "checkTemperature (sensor e) (gpio_write_ok e) m = (None, m1) \<Longrightarrow>
   loop_body e m =
     (case sleep_result e of Slept \<Rightarrow> Continue | CtrlC \<Rightarrow> Raise KeyboardInterrupt
        | SigTerm \<Rightarrow> Terminated,
      emit (Sleep sleepTime) (rotate_log (today e) m1))"
  by (simp add: loop_body_def Let_def split: wakeup.splits)

lemma loop_body_raise:
  "checkTemperature (sensor e) (gpio_write_ok e) m = (Some x, m1) \<Longrightarrow>
   loop_body e m = (Raise x, m1)"
  by (simp add: loop_body_def)

lemma loop_body_cleanup:
  "(GpioCleanup \<in> set (effects (snd (loop_body e m)))) = (GpioCleanup \<in> set (effects m))"
proof (cases "checkTemperature (sensor e) (gpio_write_ok e) m")
  case (Pair r m1)
  have c: "(GpioCleanup \<in> set (effects m1)) = (GpioCleanup \<in> set (effects m))"
    using check_cleanup [of "sensor e" "gpio_write_ok e" m] Pair by simp
  show ?thesis
  proof (cases r)
    case None
    then show ?thesis using Pair c
      by (simp add: loop_body_after_check emit_def rotate_cleanup)
  next
    case (Some x)
    then show ?thesis using Pair c by (simp add: loop_body_raise)
  qed
qed

lemma main_loop_running_cleanup:
  "main_loop m es = Running m' \<Longrightarrow>
   (GpioCleanup \<in> set (effects m')) = (GpioCleanup \<in> set (effects m))"
proof (induction es arbitrary: m)
  case Nil
  then show ?case by simp
next
  case (Cons e es)
  show ?case
  proof (cases "loop_body e m")
    case (Pair f m1)
    have c: "(GpioCleanup \<in> set (effects m1)) = (GpioCleanup \<in> set (effects m))"
      using loop_body_cleanup [of e m] Pair by simp
    show ?thesis using Cons.prems Pair c Cons.IH [of m1]
      by (cases f) simp_all
  qed
qed

lemma main_loop_append:
  "main_loop m es = Running m' \<Longrightarrow> main_loop m (es @ es') = main_loop m' es'"
proof (induction es arbitrary: m)
  case Nil
  then show ?case by simp
next
  case (Cons e es)
  show ?case
  proof (cases "loop_body e m")
    case (Pair f m1)
    show ?thesis using Cons.prems Pair Cons.IH [of m1]
      by (cases f) simp_all
  qed
qed

lemma main_loop_exit_status: "main_loop m es = Exited n m' \<Longrightarrow> n = 0"
proof (induction es arbitrary: m)
  case Nil
  then show ?case by simp
next
  case (Cons e es)
  show ?case
  proof (cases "loop_body e m")
    case (Pair f m1)
    show ?thesis using Cons.prems Pair Cons.IH [of m1]
      by (cases f) simp_all
  qed
qed

lemma handler_interrupt:
  "handler KeyboardInterrupt m =
     m\<lparr>effects := effects m @ [LogWrite ''keyboard exception occurred'', GpioCleanup, LogClose]\<rparr>"
  by (simp add: handler_def exitPin_def printMsg_def emit_def)

lemma handler_other:
  "x \<noteq> KeyboardInterrupt \<Longrightarrow> handler x m =
     m\<lparr>effects := effects m @ [LogWrite ''ERROR: an unhandled exception occurred'', GpioCleanup, LogClose]\<rparr>"
  by (simp add: handler_def exitPin_def printMsg_def emit_def)

text \<open>
  C8, for the keyboard interrupt: when the script has been looping (any iterations
  \<open>es\<close>, all of which continued), the next temperature check returns, and Ctrl-C
  arrives during the sleep, then whatever iterations \<open>rest\<close> would have followed, none
  runs: after the sleep the only effects are the log line of the handler, one
  \<^verbatim>\<open>GPIO.cleanup()\<close> and the closing of the log; the process exits with status 0; and
  \<^verbatim>\<open>GPIO.cleanup()\<close> was called exactly once in the whole run.
\<close>

theorem keyboard_interrupt_shutdown:
  assumes "run_fan g es = Running m"
      and "checkTemperature (sensor e) (gpio_write_ok e) m = (None, m1)"
      and "sleep_result e = CtrlC"
  shows "run_fan g (es @ e # rest) =
           Exited 0 ((rotate_log (today e) m1)\<lparr>effects := effects (rotate_log (today e) m1) @
              [Sleep sleepTime, LogWrite ''keyboard exception occurred'', GpioCleanup, LogClose]\<rparr>)
         \<and> count_list (effects (final (run_fan g (es @ e # rest)))) GpioCleanup = 1"
proof -
  let ?r = "rotate_log (today e) m1"
  have nc: "GpioCleanup \<notin> set (effects m)"
    using assms(1) main_loop_running_cleanup [of "startup g" es m] startup_no_cleanup [of g]
    by (simp add: run_fan_def)
  have nc1: "GpioCleanup \<notin> set (effects m1)"
    using nc check_cleanup [of "sensor e" "gpio_write_ok e" m] assms(2) by simp
  have nr: "GpioCleanup \<notin> set (effects ?r)"
    using nc1 by (simp add: rotate_cleanup)
  have lb: "loop_body e m = (Raise KeyboardInterrupt, emit (Sleep sleepTime) ?r)"
    using assms(2,3) by (simp add: loop_body_after_check)
  have "run_fan g (es @ e # rest) = main_loop m (e # rest)"
    using assms(1) by (simp add: run_fan_def main_loop_append)
  also have "\<dots> = Exited 0 (handler KeyboardInterrupt (emit (Sleep sleepTime) ?r))"
    using lb by simp
  also have "handler KeyboardInterrupt (emit (Sleep sleepTime) ?r) =
      ?r\<lparr>effects := effects ?r @
              [Sleep sleepTime, LogWrite ''keyboard exception occurred'', GpioCleanup, LogClose]\<rparr>"
    by (simp add: handler_interrupt emit_def)
  finally have a: "run_fan g (es @ e # rest) = Exited 0 (?r\<lparr>effects := effects ?r @
              [Sleep sleepTime, LogWrite ''keyboard exception occurred'', GpioCleanup, LogClose]\<rparr>)" .
  have "count_list (effects ?r) GpioCleanup = 0"
    using nr by (simp add: count_list_0_iff)
  then show ?thesis using a by simp
qed

text \<open>The first iteration at 50 degrees after a failed GPIO set-up, evaluated.\<close>

lemma first_iteration_cool:
  "run_fan SetupRaises [quiet \<lparr>year = 2024, month = 5, day = 17\<rparr> (Fin 50)]
   = Running
      \<lparr>fanOff = True, cpuTemperature = Fin 50, startTemperature = Fin 67,
       stopTemperature = Fin 62,
       logName = ''/home/pi/run-fan/logs/run-fan-2024.05.17.log'',
       effects =
         [LogOpen ''/home/pi/run-fan/logs/run-fan-default.log'',
          LogWrite ''Starting: run-fan'',
          LogWrite ''If method setup doesn't work, need to run script as sudo'',
          LogWriteTemp ''Start fan at: '' (Fin 67),
          LogWriteTemp ''Stop fan at: '' (Fin 62),
          LogClose, LogOpen ''/home/pi/run-fan/logs/run-fan-2024.05.17.log'',
          OsSystem ''find /home/pi/run-fan/logs/ -mtime +14 -delete'',
          Sleep 30]\<rparr>"
  by (simp add: run_fan_def loop_body_quiet tick_def checkTemperature_ok rotate_log_def Let_def
      dateStamp_def pad4_def pad2_def digit_def sleepTime_def py_gt_def py_le_def
      startup_def Temperature_init_def Fan_init_def printMsg_def printMsgTemp_def emit_def
      module_init_def pin_def)

subsection \<open>Failures and signals\<close>

text \<open>
  C2, as the script behaves: when the sensor line cannot be parsed, \<open>checkTemperature\<close>
  raises ValueError and changes nothing (no FanState change, no driver command). The
  exception is not caught at the tick: it leaves the loop and reaches the bare
  \<^verbatim>\<open>except\<close> clause, which logs it, calls \<^verbatim>\<open>GPIO.cleanup()\<close> and closes the log. The
  loop is aborted: whatever iterations \<open>es\<close> would follow, none runs, and the process
  exits (with status 0).
\<close>

theorem sensor_failure_aborts_loop:
  "checkTemperature None ok m = (Some ValueError, m)
   \<and> main_loop m (e\<lparr>sensor := None\<rparr> # es) =
       Exited 0 (m\<lparr>effects := effects m @
         [LogWrite ''ERROR: an unhandled exception occurred'', GpioCleanup, LogClose]\<rparr>)"
  by (simp add: checkTemperature_None loop_body_raise handler_other)

text \<open>
  A run whose first reading fails and whose second reading would be 90 degrees: the
  process has exited after the first, and the fan was never commanded.
\<close>

theorem sensor_failure_continues_counterexample:
  "run_fan (SetupOk ''0'')
     [\<lparr>sensor = None, gpio_write_ok = True, today = \<lparr>year = 2024, month = 5, day = 17\<rparr>,
       sleep_result = Slept\<rparr>,
      quiet \<lparr>year = 2024, month = 5, day = 17\<rparr> (Fin 90)]
   = Exited 0
      \<lparr>fanOff = True, cpuTemperature = Fin 0, startTemperature = Fin 67,
       stopTemperature = Fin 62,
       logName = ''/home/pi/run-fan/logs/run-fan-default.log'',
       effects =
         [LogOpen ''/home/pi/run-fan/logs/run-fan-default.log'',
          LogWrite ''Starting: run-fan'', GpioSetup 25,
          LogWrite ''Initialized: run-fan using GPIO pin: 25'',
          LogWrite ''GPIO pin: 25 set to 0'',
          LogWriteTemp ''Start fan at: '' (Fin 67),
          LogWriteTemp ''Stop fan at: '' (Fin 62),
          LogWrite ''ERROR: an unhandled exception occurred'', GpioCleanup, LogClose]\<rparr>"
  by (simp add: run_fan_def checkTemperature_None loop_body_raise handler_other
      startup_def Temperature_init_def Fan_init_def printMsg_def printMsgTemp_def emit_def
      module_init_def pin_def)

text \<open>
  C6, at the failing input: \<^verbatim>\<open>GPIO.setup\<close> raises at start-up. The script logs the
  hint about sudo, then goes on: thresholds are set, the loop is entered, the
  temperature is read, the log is rotated, and the script sleeps for the next tick.
\<close>

theorem setup_failure_enters_loop:
  "run_fan SetupRaises [quiet \<lparr>year = 2024, month = 5, day = 17\<rparr> (Fin 50)]
   = Running
      \<lparr>fanOff = True, cpuTemperature = Fin 50, startTemperature = Fin 67,
       stopTemperature = Fin 62,
       logName = ''/home/pi/run-fan/logs/run-fan-2024.05.17.log'',
       effects =
         [LogOpen ''/home/pi/run-fan/logs/run-fan-default.log'',
          LogWrite ''Starting: run-fan'',
          LogWrite ''If method setup doesn't work, need to run script as sudo'',
          LogWriteTemp ''Start fan at: '' (Fin 67),
          LogWriteTemp ''Stop fan at: '' (Fin 62),
          LogClose, LogOpen ''/home/pi/run-fan/logs/run-fan-2024.05.17.log'',
          OsSystem ''find /home/pi/run-fan/logs/ -mtime +14 -delete'',
          Sleep 30]\<rparr>"
  by (rule first_iteration_cool)



text \<open>
  SIGTERM during the first sleep: the process is killed where it is. No handler runs,
  \<^verbatim>\<open>GPIO.cleanup()\<close> is not called, the log is not closed, there is no exit status 0.
\<close>

theorem sigterm_no_cleanup_counterexample:
  "run_fan (SetupOk ''0'')
     [\<lparr>sensor = Some (Fin 50), gpio_write_ok = True,
       today = \<lparr>year = 2024, month = 5, day = 17\<rparr>, sleep_result = SigTerm\<rparr>]
   = Killed
      \<lparr>fanOff = True, cpuTemperature = Fin 50, startTemperature = Fin 67,
       stopTemperature = Fin 62,
       logName = ''/home/pi/run-fan/logs/run-fan-2024.05.17.log'',
       effects =
         [LogOpen ''/home/pi/run-fan/logs/run-fan-default.log'',
          LogWrite ''Starting: run-fan'', GpioSetup 25,
          LogWrite ''Initialized: run-fan using GPIO pin: 25'',
          LogWrite ''GPIO pin: 25 set to 0'',
          LogWriteTemp ''Start fan at: '' (Fin 67),
          LogWriteTemp ''Stop fan at: '' (Fin 62),
          LogClose, LogOpen ''/home/pi/run-fan/logs/run-fan-2024.05.17.log'',
          OsSystem ''find /home/pi/run-fan/logs/ -mtime +14 -delete'',
          Sleep 30]\<rparr>"
  by (simp add: run_fan_def loop_body_def checkTemperature_ok rotate_log_def Let_def
      dateStamp_def pad4_def pad2_def digit_def sleepTime_def py_gt_def py_le_def
      startup_def Temperature_init_def Fan_init_def printMsg_def printMsgTemp_def emit_def
      module_init_def pin_def)

subsection \<open>Log rotation\<close>

text \<open>
  C9, as the script behaves: the log is rotated by the loop body only after a
  temperature check that returned, before the sleep. Then, if the open log is the dated
  log of a day \<open>d0\<close> and the date is now another day \<open>d\<close>, the old log is closed, the
  log named \<^verbatim>\<open>/home/pi/run-fan/logs/run-fan-YYYY.MM.DD.log\<close> for \<open>d\<close> is opened and
  becomes the current one, and the shell command
  \<^verbatim>\<open>find /home/pi/run-fan/logs/ -mtime +14 -delete\<close> is run (which files it deletes is
  up to \<^verbatim>\<open>find\<close>). If the dated path of today is the path of the open log, nothing
  is closed, opened or run. The temperature check itself never changes the log path.
\<close>

theorem log_rotation:
  "(valid_date d0 \<and> valid_date d \<and> d \<noteq> d0 \<and>
      logName m = ''/home/pi/run-fan/logs/run-fan-'' @ dateStamp d0 @ ''.log'' \<longrightarrow>
      rotate_log d m =
        m\<lparr>logName := ''/home/pi/run-fan/logs/run-fan-'' @ dateStamp d @ ''.log'',
          effects := effects m @
            [LogClose, LogOpen (''/home/pi/run-fan/logs/run-fan-'' @ dateStamp d @ ''.log''),
             OsSystem ''find /home/pi/run-fan/logs/ -mtime +14 -delete'']\<rparr>)
   \<and> (logName m = ''/home/pi/run-fan/logs/run-fan-'' @ dateStamp d @ ''.log'' \<longrightarrow>
        rotate_log d m = m)
   \<and> (checkTemperature (sensor e) (gpio_write_ok e) m = (None, m1) \<longrightarrow>
        logName m1 = logName m \<and>
        snd (loop_body e m) = emit (Sleep sleepTime) (rotate_log (today e) m1))"
proof -
  have a: "valid_date d0 \<and> valid_date d \<and> d \<noteq> d0 \<longrightarrow> dateStamp d \<noteq> dateStamp d0"
    using dateStamp_inj [of d d0] by blast
  have b: "checkTemperature (sensor e) (gpio_write_ok e) m = (None, m1) \<longrightarrow> logName m1 = logName m"
    using check_logName [of "sensor e" "gpio_write_ok e" m] by auto
  show ?thesis
    using a b by (auto simp: rotate_log_def Let_def emit_def loop_body_after_check)
qed

text \<open>
  A day boundary without rotation: the log of the 17th of May 2024 is open, and on the
  18th the sensor read fails. The run ends with the log of the 17th as the current
  one; the handler closes it, no log of the 18th is opened and no sweep is run.
\<close>

theorem day_boundary_no_rotation_counterexample:
  "run_fan SetupRaises
     [quiet \<lparr>year = 2024, month = 5, day = 17\<rparr> (Fin 50),
      \<lparr>sensor = None, gpio_write_ok = True, today = \<lparr>year = 2024, month = 5, day = 18\<rparr>,
        sleep_result = Slept\<rparr>]
   = Exited 0
      \<lparr>fanOff = True, cpuTemperature = Fin 50, startTemperature = Fin 67,
       stopTemperature = Fin 62,
       logName = ''/home/pi/run-fan/logs/run-fan-2024.05.17.log'',
       effects =
         [LogOpen ''/home/pi/run-fan/logs/run-fan-default.log'',
          LogWrite ''Starting: run-fan'',
          LogWrite ''If method setup doesn't work, need to run script as sudo'',
          LogWriteTemp ''Start fan at: '' (Fin 67),
          LogWriteTemp ''Stop fan at: '' (Fin 62),
          LogClose, LogOpen ''/home/pi/run-fan/logs/run-fan-2024.05.17.log'',
          OsSystem ''find /home/pi/run-fan/logs/ -mtime +14 -delete'',
          Sleep 30,
          LogWrite ''ERROR: an unhandled exception occurred'', GpioCleanup, LogClose]\<rparr>"
proof -
  let ?q = "quiet \<lparr>year = 2024, month = 5, day = 17\<rparr> (Fin 50)"
  let ?e = "\<lparr>sensor = None, gpio_write_ok = True,
             today = \<lparr>year = 2024, month = 5, day = 18\<rparr>, sleep_result = Slept\<rparr>"
  let ?M = "\<lparr>fanOff = True, cpuTemperature = Fin 50, startTemperature = Fin 67,
       stopTemperature = Fin 62,
       logName = ''/home/pi/run-fan/logs/run-fan-2024.05.17.log'',
       effects =
         [LogOpen ''/home/pi/run-fan/logs/run-fan-default.log'',
          LogWrite ''Starting: run-fan'',
          LogWrite ''If method setup doesn't work, need to run script as sudo'',
          LogWriteTemp ''Start fan at: '' (Fin 67),
          LogWriteTemp ''Stop fan at: '' (Fin 62),
          LogClose, LogOpen ''/home/pi/run-fan/logs/run-fan-2024.05.17.log'',
          OsSystem ''find /home/pi/run-fan/logs/ -mtime +14 -delete'',
          Sleep 30]\<rparr>"
  have r: "main_loop (startup SetupRaises) [?q] = Running ?M"
    using first_iteration_cool by (simp only: run_fan_def)
  have "run_fan SetupRaises ([?q] @ [?e]) = main_loop ?M [?e]"
    unfolding run_fan_def using r by (rule main_loop_append)
  also have "main_loop ?M [?e] = Exited 0 (?M\<lparr>effects := effects ?M @
      [LogWrite ''ERROR: an unhandled exception occurred'', GpioCleanup, LogClose]\<rparr>)"
    by (simp add: loop_body_raise checkTemperature_None handler_other)
  finally show ?thesis by simp
qed

text \<open>
  C10, as the script behaves: the log opened at start-up is \<^verbatim>\<open>run-fan-default.log\<close>,
  which is no dated path. So in the first iteration, whatever the date, provided the
  temperature check returns, the default log is closed, the dated log is opened and
  the sweep command is run, before the first sleep.
\<close>

theorem first_tick_rotates:
  "logName (startup g) = ''/home/pi/run-fan/logs/run-fan-default.log''
   \<and> (checkTemperature (sensor e) (gpio_write_ok e) (startup g) = (None, m1) \<longrightarrow>
        snd (loop_body e (startup g)) =
          m1\<lparr>logName := ''/home/pi/run-fan/logs/run-fan-'' @ dateStamp (today e) @ ''.log'',
             effects := effects m1 @
               [LogClose,
                LogOpen (''/home/pi/run-fan/logs/run-fan-'' @ dateStamp (today e) @ ''.log''),
                OsSystem ''find /home/pi/run-fan/logs/ -mtime +14 -delete'',
                Sleep sleepTime]\<rparr>)"
proof -
  have "checkTemperature (sensor e) (gpio_write_ok e) (startup g) = (None, m1) \<longrightarrow>
     logName m1 = ''/home/pi/run-fan/logs/run-fan-default.log''"
    using check_logName [of "sensor e" "gpio_write_ok e" "startup g"]
    by (auto simp: startup_fields)
  then show ?thesis
    using default_not_dated [of "today e"]
    by (auto simp: startup_fields loop_body_after_check rotate_log_def Let_def emit_def)
qed

text \<open>
  A first iteration without rotation: the GPIO set-up has failed, the first reading is
  90 degrees and \<^verbatim>\<open>GPIO.output\<close> raises. The run ends on \<^verbatim>\<open>run-fan-default.log\<close>: no
  dated log is opened and no sweep is run.
\<close>

theorem first_tick_no_rotation_counterexample:
  "run_fan SetupRaises
     [\<lparr>sensor = Some (Fin 90), gpio_write_ok = False,
       today = \<lparr>year = 2024, month = 5, day = 17\<rparr>, sleep_result = Slept\<rparr>]
   = Exited 0
      \<lparr>fanOff = True, cpuTemperature = Fin 90, startTemperature = Fin 67,
       stopTemperature = Fin 62,
       logName = ''/home/pi/run-fan/logs/run-fan-default.log'',
       effects =
         [LogOpen ''/home/pi/run-fan/logs/run-fan-default.log'',
          LogWrite ''Starting: run-fan'',
          LogWrite ''If method setup doesn't work, need to run script as sudo'',
          LogWriteTemp ''Start fan at: '' (Fin 67),
          LogWriteTemp ''Stop fan at: '' (Fin 62),
          LogWriteTemp ''Turning fan on '' (Fin 90),
          LogWrite ''ERROR: an unhandled exception occurred'', GpioCleanup, LogClose]\<rparr>"
  by (simp add: run_fan_def checkTemperature_fail loop_body_raise handler_other py_gt_def
      startup_def Temperature_init_def Fan_init_def printMsg_def printMsgTemp_def emit_def
      module_init_def pin_def)

section \<open>Instances at concrete inputs\<close>

text \<open>One tick at 68, at 67 (the start threshold) and, with the fan ON, at 62.\<close>

theorem checkTemperature_hysteresis_witness:
  "py_lt (stopTemperature (startup SetupRaises)) (startTemperature (startup SetupRaises))
   \<and> fanOff (startup SetupRaises)
   \<and> checkTemperature (Some (Fin 68)) True (startup SetupRaises) =
       (None, (startup SetupRaises)\<lparr>cpuTemperature := Fin 68, fanOff := False,
          effects := effects (startup SetupRaises) @
            [LogWriteTemp ''Turning fan on '' (Fin 68), GpioOutput pin True]\<rparr>)
   \<and> checkTemperature (Some (Fin 67)) True (startup SetupRaises) =
       (None, (startup SetupRaises)\<lparr>cpuTemperature := Fin 67\<rparr>)
   \<and> \<not> fanOff (tick (Fin 68) (startup SetupRaises))
   \<and> checkTemperature (Some (Fin 62)) True (tick (Fin 68) (startup SetupRaises)) =
       (None, (tick (Fin 68) (startup SetupRaises))\<lparr>cpuTemperature := Fin 62, fanOff := True,
          effects := effects (tick (Fin 68) (startup SetupRaises)) @
            [LogWriteTemp ''Turning fan off '' (Fin 62), GpioOutput pin False]\<rparr>)"
proof -
  let ?m = "startup SetupRaises"
  let ?n = "tick (Fin 68) ?m"
  have lt: "py_lt (stopTemperature ?m) (startTemperature ?m)"
    by (simp add: startup_fields)
  have lt': "py_lt (stopTemperature ?n) (startTemperature ?n)"
    by (simp add: startup_fields tick_thresholds)
  have off: "fanOff ?m" by (rule startup_fields)
  have on: "\<not> fanOff ?n" by (simp add: fanOff_tick startup_fields py_gt_def)
  show ?thesis
    using lt off on checkTemperature_hysteresis [OF lt, of "Fin 68"]
      checkTemperature_hysteresis [OF lt'] 
    by (simp add: startup_fields tick_thresholds py_gt_def py_le_def)
qed

text \<open>Hot, cold and dead-band runs after start-up.\<close>

theorem no_chatter_witness:
  "py_gt (Fin 68) (startTemperature (startup SetupRaises))
   \<and> py_gt (Fin 90) (startTemperature (startup SetupRaises))
   \<and> length (commands_during (startup SetupRaises) [Fin 50] [Fin 68, Fin 90]) \<le> 1
   \<and> py_lt (stopTemperature (startup SetupRaises)) (startTemperature (startup SetupRaises))
   \<and> py_le (Fin 61) (stopTemperature (startup SetupRaises))
   \<and> py_le (Fin 62) (stopTemperature (startup SetupRaises))
   \<and> length (commands_during (startup SetupRaises) [Fin 68] [Fin 61, Fin 62]) \<le> 1
   \<and> \<not> py_gt (Fin 63) (startTemperature (startup SetupRaises))
   \<and> \<not> py_le (Fin 63) (stopTemperature (startup SetupRaises))
   \<and> \<not> py_gt (Fin 67) (startTemperature (startup SetupRaises))
   \<and> \<not> py_le (Fin 67) (stopTemperature (startup SetupRaises))
   \<and> commands_during (startup SetupRaises) [Fin 68] [Fin 63, Fin 67] = []"
proof -
  let ?m = "startup SetupRaises"
  have a: "py_gt (Fin 68) (startTemperature ?m)" "py_gt (Fin 90) (startTemperature ?m)"
    by (simp_all add: startup_fields py_gt_def)
  have b: "py_lt (stopTemperature ?m) (startTemperature ?m)"
    "py_le (Fin 61) (stopTemperature ?m)" "py_le (Fin 62) (stopTemperature ?m)"
    by (simp_all add: startup_fields py_le_def)
  have c: "\<not> py_gt (Fin 63) (startTemperature ?m)" "\<not> py_le (Fin 63) (stopTemperature ?m)"
    "\<not> py_gt (Fin 67) (startTemperature ?m)" "\<not> py_le (Fin 67) (stopTemperature ?m)"
    by (simp_all add: startup_fields py_le_def py_gt_def)
  show ?thesis
    using a b c no_chatter [of "[Fin 68, Fin 90]" ?m "[Fin 50]"]
      no_chatter [of "[Fin 61, Fin 62]" ?m "[Fin 68]"]
      no_chatter [of "[Fin 63, Fin 67]" ?m "[Fin 68]"]
    by simp
qed

text \<open>Rotation from the 17th to the 18th of May 2024, and none within the 17th.\<close>

theorem log_rotation_witness:
  "valid_date \<lparr>year = 2024, month = 5, day = 17\<rparr>
   \<and> valid_date \<lparr>year = 2024, month = 5, day = 18\<rparr>
   \<and> \<lparr>year = 2024, month = 5, day = 18\<rparr> \<noteq> \<lparr>year = 2024, month = 5, day = 17\<rparr>
   \<and> logName (final (run_fan SetupRaises [quiet \<lparr>year = 2024, month = 5, day = 17\<rparr> (Fin 50)]))
       = ''/home/pi/run-fan/logs/run-fan-2024.05.17.log''
   \<and> rotate_log \<lparr>year = 2024, month = 5, day = 18\<rparr>
         (final (run_fan SetupRaises [quiet \<lparr>year = 2024, month = 5, day = 17\<rparr> (Fin 50)]))
       = (final (run_fan SetupRaises [quiet \<lparr>year = 2024, month = 5, day = 17\<rparr> (Fin 50)]))
           \<lparr>logName := ''/home/pi/run-fan/logs/run-fan-2024.05.18.log'',
            effects := effects (final (run_fan SetupRaises
                 [quiet \<lparr>year = 2024, month = 5, day = 17\<rparr> (Fin 50)])) @
              [LogClose, LogOpen ''/home/pi/run-fan/logs/run-fan-2024.05.18.log'',
               OsSystem ''find /home/pi/run-fan/logs/ -mtime +14 -delete'']\<rparr>
   \<and> rotate_log \<lparr>year = 2024, month = 5, day = 17\<rparr>
         (final (run_fan SetupRaises [quiet \<lparr>year = 2024, month = 5, day = 17\<rparr> (Fin 50)]))
       = final (run_fan SetupRaises [quiet \<lparr>year = 2024, month = 5, day = 17\<rparr> (Fin 50)])
   \<and> checkTemperature (Some (Fin 50)) True (startup SetupRaises)
       = (None, tick (Fin 50) (startup SetupRaises))
   \<and> logName (tick (Fin 50) (startup SetupRaises)) = logName (startup SetupRaises)
   \<and> snd (loop_body (quiet \<lparr>year = 2024, month = 5, day = 17\<rparr> (Fin 50)) (startup SetupRaises))
       = emit (Sleep sleepTime)
           (rotate_log \<lparr>year = 2024, month = 5, day = 17\<rparr> (tick (Fin 50) (startup SetupRaises)))"
proof -
  let ?dA = "\<lparr>year = 2024, month = 5, day = 17\<rparr>"
  let ?d = "\<lparr>year = 2024, month = 5, day = 18\<rparr>"
  let ?m = "final (run_fan SetupRaises [quiet ?dA (Fin 50)])"
  let ?e = "quiet ?dA (Fin 50)"
  let ?s = "startup SetupRaises"
  have v: "valid_date ?dA" "valid_date ?d" "?d \<noteq> ?dA"
    by (simp_all add: valid_date_def)
  have s: "''/home/pi/run-fan/logs/run-fan-'' @ dateStamp ?dA @ ''.log''
             = ''/home/pi/run-fan/logs/run-fan-2024.05.17.log''"
    "''/home/pi/run-fan/logs/run-fan-'' @ dateStamp ?d @ ''.log''
             = ''/home/pi/run-fan/logs/run-fan-2024.05.18.log''"
    by (simp_all add: dateStamp_def pad4_def pad2_def digit_def)
  have n: "logName ?m = ''/home/pi/run-fan/logs/run-fan-2024.05.17.log''"
    by (simp add: first_iteration_cool)
  have c: "checkTemperature (sensor ?e) (gpio_write_ok ?e) ?s = (None, tick (Fin 50) ?s)"
    by (simp add: quiet_def check_tick)
  have c': "checkTemperature (Some (Fin 50)) True ?s = (None, tick (Fin 50) ?s)"
    by (rule check_tick)
  have t: "today ?e = ?dA"
    by (simp add: quiet_def)
  have r1: "rotate_log ?d ?m =
      ?m\<lparr>logName := ''/home/pi/run-fan/logs/run-fan-2024.05.18.log'',
         effects := effects ?m @
              [LogClose, LogOpen ''/home/pi/run-fan/logs/run-fan-2024.05.18.log'',
               OsSystem ''find /home/pi/run-fan/logs/ -mtime +14 -delete'']\<rparr>"
    using v n log_rotation [of ?dA ?d ?m] unfolding s by blast
  have r2: "rotate_log ?dA ?m = ?m"
    using n log_rotation [of ?dA ?dA ?m] unfolding s by blast
  have r3: "logName (tick (Fin 50) ?s) = logName ?s \<and>
      snd (loop_body ?e ?s) = emit (Sleep sleepTime) (rotate_log ?dA (tick (Fin 50) ?s))"
    using c log_rotation [of ?dA ?dA ?s ?e "tick (Fin 50) ?s"] unfolding t by blast
  show ?thesis
    using v n r1 r2 r3 c' by blast
qed

text \<open>The first iteration on the 17th of May 2024, at 50 degrees.\<close>

theorem first_tick_rotates_witness:
  "checkTemperature (Some (Fin 50)) True (startup (SetupOk ''0''))
     = (None, tick (Fin 50) (startup (SetupOk ''0'')))
   \<and> snd (loop_body (quiet \<lparr>year = 2024, month = 5, day = 17\<rparr> (Fin 50)) (startup (SetupOk ''0'')))
     = (tick (Fin 50) (startup (SetupOk ''0'')))
         \<lparr>logName := ''/home/pi/run-fan/logs/run-fan-2024.05.17.log'',
          effects := effects (tick (Fin 50) (startup (SetupOk ''0''))) @
            [LogClose, LogOpen ''/home/pi/run-fan/logs/run-fan-2024.05.17.log'',
             OsSystem ''find /home/pi/run-fan/logs/ -mtime +14 -delete'', Sleep 30]\<rparr>"
proof -
  let ?e = "quiet \<lparr>year = 2024, month = 5, day = 17\<rparr> (Fin 50)"
  let ?m = "startup (SetupOk ''0'')"
  have c: "checkTemperature (sensor ?e) (gpio_write_ok ?e) ?m = (None, tick (Fin 50) ?m)"
    by (simp add: quiet_def check_tick)
  have s: "dateStamp \<lparr>year = 2024, month = 5, day = 17\<rparr> = ''2024.05.17''"
    by (simp add: dateStamp_def pad4_def pad2_def digit_def)
  show ?thesis
    using c s first_tick_rotates [of "SetupOk ''0''" ?e "tick (Fin 50) ?m"]
    by (simp add: quiet_def sleepTime_def)
qed


text \<open>
  One quiet iteration, then Ctrl-C in the sleep of the second, which had turned the fan
  on; a third iteration is given and does not run.
\<close>

theorem keyboard_interrupt_shutdown_witness:
  "run_fan SetupRaises [quiet \<lparr>year = 2024, month = 5, day = 17\<rparr> (Fin 50)]
     = Running (final (run_fan SetupRaises [quiet \<lparr>year = 2024, month = 5, day = 17\<rparr> (Fin 50)]))
   \<and> checkTemperature (Some (Fin 90)) True
        (final (run_fan SetupRaises [quiet \<lparr>year = 2024, month = 5, day = 17\<rparr> (Fin 50)]))
       = (None, tick (Fin 90)
           (final (run_fan SetupRaises [quiet \<lparr>year = 2024, month = 5, day = 17\<rparr> (Fin 50)])))
   \<and> run_fan SetupRaises
        ([quiet \<lparr>year = 2024, month = 5, day = 17\<rparr> (Fin 50)] @
         \<lparr>sensor = Some (Fin 90), gpio_write_ok = True,
           today = \<lparr>year = 2024, month = 5, day = 17\<rparr>, sleep_result = CtrlC\<rparr> #
         [quiet \<lparr>year = 2024, month = 5, day = 17\<rparr> (Fin 50)])
       = Exited 0
          \<lparr>fanOff = False, cpuTemperature = Fin 90, startTemperature = Fin 67,
           stopTemperature = Fin 62,
           logName = ''/home/pi/run-fan/logs/run-fan-2024.05.17.log'',
           effects =
             [LogOpen ''/home/pi/run-fan/logs/run-fan-default.log'',
              LogWrite ''Starting: run-fan'',
              LogWrite ''If method setup doesn't work, need to run script as sudo'',
              LogWriteTemp ''Start fan at: '' (Fin 67),
              LogWriteTemp ''Stop fan at: '' (Fin 62),
              LogClose, LogOpen ''/home/pi/run-fan/logs/run-fan-2024.05.17.log'',
              OsSystem ''find /home/pi/run-fan/logs/ -mtime +14 -delete'',
              Sleep 30,
              LogWriteTemp ''Turning fan on '' (Fin 90), GpioOutput 25 True,
              Sleep 30, LogWrite ''keyboard exception occurred'', GpioCleanup, LogClose]\<rparr>
   \<and> count_list (effects (final (run_fan SetupRaises
        ([quiet \<lparr>year = 2024, month = 5, day = 17\<rparr> (Fin 50)] @
         \<lparr>sensor = Some (Fin 90), gpio_write_ok = True,
           today = \<lparr>year = 2024, month = 5, day = 17\<rparr>, sleep_result = CtrlC\<rparr> #
         [quiet \<lparr>year = 2024, month = 5, day = 17\<rparr> (Fin 50)])))) GpioCleanup = 1"
proof -
  let ?d = "\<lparr>year = 2024, month = 5, day = 17\<rparr>"
  let ?m = "final (run_fan SetupRaises [quiet ?d (Fin 50)])"
  let ?e = "\<lparr>sensor = Some (Fin 90), gpio_write_ok = True, today = ?d, sleep_result = CtrlC\<rparr>"
  have r: "run_fan SetupRaises [quiet ?d (Fin 50)] = Running ?m"
    by (simp add: first_iteration_cool)
  have c: "checkTemperature (sensor ?e) (gpio_write_ok ?e) ?m = (None, tick (Fin 90) ?m)"
    by (simp add: check_tick)
  have k: "sleep_result ?e = CtrlC" by simp
  have s: "dateStamp ?d = ''2024.05.17''"
    by (simp add: dateStamp_def pad4_def pad2_def digit_def)
  have t: "tick (Fin 90) ?m =
      \<lparr>fanOff = False, cpuTemperature = Fin 90, startTemperature = Fin 67,
           stopTemperature = Fin 62,
           logName = ''/home/pi/run-fan/logs/run-fan-2024.05.17.log'',
           effects =
             [LogOpen ''/home/pi/run-fan/logs/run-fan-default.log'',
              LogWrite ''Starting: run-fan'',
              LogWrite ''If method setup doesn't work, need to run script as sudo'',
              LogWriteTemp ''Start fan at: '' (Fin 67),
              LogWriteTemp ''Stop fan at: '' (Fin 62),
              LogClose, LogOpen ''/home/pi/run-fan/logs/run-fan-2024.05.17.log'',
              OsSystem ''find /home/pi/run-fan/logs/ -mtime +14 -delete'',
              Sleep 30,
              LogWriteTemp ''Turning fan on '' (Fin 90), GpioOutput 25 True]\<rparr>"
    by (simp add: first_iteration_cool tick_def checkTemperature_ok py_gt_def pin_def)
  show ?thesis
    using r c keyboard_interrupt_shutdown [OF r c k, of "[quiet ?d (Fin 50)]"]
    by (simp add: t sleepTime_def rotate_log_def Let_def s)
qed

end
